theory Spec2Isabelle
  imports Complex_Main "HOL-Library.Word"
begin

unbundle bit_operations_syntax

section \<open>Errors and control flow of the source language\<close>

text \<open>
  The exceptions the converters can raise while they process and save weights.
  Every raise of the source is a value \<open>Inl e\<close> of the model.
\<close>

datatype error =
    ValueError | TypeError | IndexError | OverflowError | ZeroDivisionError
  | StructError | OSError | SystemExit

fun bindE :: "error + 'a \<Rightarrow> ('a \<Rightarrow> error + 'b) \<Rightarrow> error + 'b" where
  "bindE (Inl e) f = Inl e"
| "bindE (Inr x) f = f x"

text \<open>\<^verbatim>\<open>for i in xs: s = body(i, s)\<close>, stopping at the first exception.\<close>

fun for_loop :: "'i list \<Rightarrow> ('i \<Rightarrow> 's \<Rightarrow> error + 's) \<Rightarrow> 's \<Rightarrow> error + 's" where
  "for_loop [] body s = Inr s"
| "for_loop (i # is) body s = bindE (body i s) (for_loop is body)"

definition for_range :: "nat \<Rightarrow> (nat \<Rightarrow> 's \<Rightarrow> error + 's) \<Rightarrow> 's \<Rightarrow> error + 's" where
  "for_range n body s = for_loop [0..<n] body s"

section \<open>Floating-point values\<close>

text \<open>
  A floating-point number is modelled by its value: a rational, an infinity or NaN.
  The sign of zero is not part of a value; where it is stored (the bits of a tensor)
  it lives in the bit pattern. A format is given by the number \<open>mb\<close> of stored
  mantissa bits and the number \<open>eb\<close> of exponent bits: binary32 is \<open>23, 8\<close>,
  binary64 is \<open>52, 11\<close>, binary16 is \<open>10, 5\<close>.
\<close>

datatype fval = Fin rat | PInf | NInf | NaN

definition pow2 :: "int \<Rightarrow> rat" where
  "pow2 k = (if 0 \<le> k then 2 ^ nat k else 1 / 2 ^ nat (- k))"

text \<open>Rounding to the nearest integer, ties to the even one (\<^verbatim>\<open>np.round\<close>, IEEE default).\<close>

definition round_half_even :: "rat \<Rightarrow> int" where
  "round_half_even q =
     (let f = \<lfloor>q\<rfloor>; d = q - of_int f in
      if d < 1 / 2 then f else if 1 / 2 < d then f + 1 else if even f then f else f + 1)"

function bitlen :: "int \<Rightarrow> int" where
  "bitlen n = (if n \<le> 0 then 0 else 1 + bitlen (n div 2))"
  by pat_completeness auto
termination
  by (relation "measure nat") auto

declare bitlen.simps [simp del]

text \<open>The exponent \<open>e\<close> with \<open>2 ^ e \<le> a < 2 ^ (e + 1)\<close>, for positive \<open>a\<close>.\<close>

definition ilog2 :: "rat \<Rightarrow> int" where
  "ilog2 a =
     (let (n, d) = quotient_of a; k = bitlen n - bitlen d
      in if pow2 k \<le> a then k else k - 1)"

definition bias :: "nat \<Rightarrow> int" where
  "bias eb = 2 ^ (eb - 1) - 1"

text \<open>The value of a bit pattern, given as the unsigned integer it spells.\<close>

definition decode_float :: "nat \<Rightarrow> nat \<Rightarrow> int \<Rightarrow> fval" where
  "decode_float mb eb n =
     (let s = n div 2 ^ (mb + eb) mod 2; e = n div 2 ^ mb mod 2 ^ eb; m = n mod 2 ^ mb in
      if e = 2 ^ eb - 1 then (if m = 0 then (if s = 1 then NInf else PInf) else NaN)
      else let q = (if e = 0 then of_int m * pow2 (1 - bias eb - int mb)
                    else of_int (2 ^ mb + m) * pow2 (e - bias eb - int mb))
           in Fin (if s = 1 then - q else q))"

text \<open>
  The bit pattern of a value, rounding to nearest, ties to even; gradual underflow below
  the least normal exponent and overflow to infinity above the largest finite number.
\<close>

definition encode_float :: "nat \<Rightarrow> nat \<Rightarrow> fval \<Rightarrow> int" where
  "encode_float mb eb v =
     (let inf = (2 ^ eb - 1) * 2 ^ mb in
      case v of
        NaN \<Rightarrow> inf + 2 ^ (mb - 1)
      | PInf \<Rightarrow> inf
      | NInf \<Rightarrow> 2 ^ (mb + eb) + inf
      | Fin q \<Rightarrow>
          (let a = \<bar>q\<bar>; s = (if q < 0 then 2 ^ (mb + eb) else 0) in
           if a = 0 then s
           else let e = max (ilog2 a) (1 - bias eb);
                    m = round_half_even (a / pow2 (e - int mb));
                    r = (e + bias eb - 1) * 2 ^ mb + m
                in s + min r inf))"

definition round_to :: "nat \<Rightarrow> nat \<Rightarrow> fval \<Rightarrow> fval" where
  "round_to mb eb v = decode_float mb eb (encode_float mb eb v)"

subsection \<open>Arithmetic on values, rounded to a format\<close>

fun fneg :: "fval \<Rightarrow> fval" where
  "fneg (Fin a) = Fin (- a)"
| "fneg PInf = NInf"
| "fneg NInf = PInf"
| "fneg NaN = NaN"

fun fadd :: "nat \<Rightarrow> nat \<Rightarrow> fval \<Rightarrow> fval \<Rightarrow> fval" where
  "fadd mb eb (Fin a) (Fin b) = round_to mb eb (Fin (a + b))"
| "fadd mb eb NaN y = NaN"
| "fadd mb eb x NaN = NaN"
| "fadd mb eb PInf NInf = NaN"
| "fadd mb eb NInf PInf = NaN"
| "fadd mb eb PInf y = PInf"
| "fadd mb eb NInf y = NInf"
| "fadd mb eb x PInf = PInf"
| "fadd mb eb x NInf = NInf"

definition fsub :: "nat \<Rightarrow> nat \<Rightarrow> fval \<Rightarrow> fval \<Rightarrow> fval" where
  "fsub mb eb x y = fadd mb eb x (fneg y)"

text \<open>
  Division. A zero divisor is the positive zero here: the only divisor of the converters
  is a scale, which is a non-negative range divided by a positive constant.
\<close>

fun fdiv :: "nat \<Rightarrow> nat \<Rightarrow> fval \<Rightarrow> fval \<Rightarrow> fval" where
  "fdiv mb eb NaN y = NaN"
| "fdiv mb eb x NaN = NaN"
| "fdiv mb eb (Fin a) (Fin b) =
     (if b = 0 then (if a = 0 then NaN else if 0 < a then PInf else NInf)
      else round_to mb eb (Fin (a / b)))"
| "fdiv mb eb (Fin a) y = Fin 0"
| "fdiv mb eb PInf (Fin b) = (if 0 \<le> b then PInf else NInf)"
| "fdiv mb eb NInf (Fin b) = (if 0 \<le> b then NInf else PInf)"
| "fdiv mb eb x y = NaN"

fun fabs :: "fval \<Rightarrow> fval" where
  "fabs (Fin a) = Fin \<bar>a\<bar>"
| "fabs NaN = NaN"
| "fabs x = PInf"

text \<open>\<open>x > y\<close> and \<open>x < y\<close> of IEEE: false whenever a NaN takes part.\<close>

fun fless :: "fval \<Rightarrow> fval \<Rightarrow> bool" where
  "fless NaN y = False"
| "fless x NaN = False"
| "fless (Fin a) (Fin b) = (a < b)"
| "fless NInf NInf = False"
| "fless NInf y = True"
| "fless x NInf = False"
| "fless PInf y = False"
| "fless x PInf = True"

text \<open>\<^verbatim>\<open>np.maximum\<close> and \<^verbatim>\<open>np.minimum\<close>: a NaN operand is the result.\<close>

definition fmaximum :: "fval \<Rightarrow> fval \<Rightarrow> fval" where
  "fmaximum x y = (if x = NaN \<or> y = NaN then NaN else if fless x y then y else x)"

definition fminimum :: "fval \<Rightarrow> fval \<Rightarrow> fval" where
  "fminimum x y = (if x = NaN \<or> y = NaN then NaN else if fless y x then y else x)"

fun frint :: "fval \<Rightarrow> fval" where
  "frint (Fin a) = Fin (of_int (round_half_even a))"
| "frint x = x"

text \<open>Python's \<^verbatim>\<open>int(x)\<close> on a float: truncation, and an exception on NaN and infinity.\<close>

definition trunc :: "rat \<Rightarrow> int" where
  "trunc a = (if 0 \<le> a then \<lfloor>a\<rfloor> else - \<lfloor>- a\<rfloor>)"

fun py_int :: "fval \<Rightarrow> error + int" where
  "py_int (Fin a) = Inr (trunc a)"
| "py_int NaN = Inl ValueError"
| "py_int x = Inl OverflowError"

section \<open>NumPy arrays and scalars\<close>

text \<open>
  An array is its shape and its elements in row-major order. A weight tensor is an array
  of binary32 bit patterns; the arrays computed on the way hold values.
\<close>

record 'a ndarray =
  shape :: "nat list"
  elems :: "'a list"

definition asize :: "'a ndarray \<Rightarrow> nat" where
  "asize a = prod_list (shape a)"

definition wf_array :: "'a ndarray \<Rightarrow> bool" where
  "wf_array a = (length (elems a) = asize a)"

definition f32_val :: "32 word \<Rightarrow> fval" where
  "f32_val w = decode_float 23 8 (uint w)"

text \<open>
  A scalar is a Python float (binary64) or a NumPy scalar. NumPy's promotion rule decides
  the type of a NumPy binary32 scalar divided by a Python float: binary64 under the legacy
  value-based rule, binary32 under NEP 50 (NumPy 2).
\<close>

datatype scalar = PyFloat fval | NpFloat32 fval | NpFloat64 fval

datatype promotion = Legacy | NEP50

fun scalar_val :: "scalar \<Rightarrow> fval" where
  "scalar_val (PyFloat v) = v"
| "scalar_val (NpFloat32 v) = v"
| "scalar_val (NpFloat64 v) = v"

text \<open>
  \<^verbatim>\<open>s / c\<close> for a Python float \<open>c\<close>. Python's own division raises on a zero divisor;
  NumPy's returns an infinity or NaN.
\<close>

fun scalar_truediv :: "promotion \<Rightarrow> scalar \<Rightarrow> fval \<Rightarrow> error + scalar" where
  "scalar_truediv pr (PyFloat v) c =
     (if c = Fin 0 then Inl ZeroDivisionError else Inr (PyFloat (fdiv 52 11 v c)))"
| "scalar_truediv Legacy (NpFloat32 v) c = Inr (NpFloat64 (fdiv 52 11 v c))"
| "scalar_truediv NEP50 (NpFloat32 v) c = Inr (NpFloat32 (fdiv 23 8 v c))"
| "scalar_truediv pr (NpFloat64 v) c = Inr (NpFloat64 (fdiv 52 11 v c))"

text \<open>\<^verbatim>\<open>np.max\<close> and \<^verbatim>\<open>np.min\<close> raise on an array without elements.\<close>

definition np_max :: "32 word ndarray \<Rightarrow> error + fval" where
  "np_max a = (case map f32_val (elems a) of
                 [] \<Rightarrow> Inl ValueError
               | v # vs \<Rightarrow> Inr (fold (\<lambda>x m. fmaximum m x) vs v))"

definition np_min :: "32 word ndarray \<Rightarrow> error + fval" where
  "np_min a = (case map f32_val (elems a) of
                 [] \<Rightarrow> Inl ValueError
               | v # vs \<Rightarrow> Inr (fold (\<lambda>x m. fminimum m x) vs v))"

text \<open>
  \<^verbatim>\<open>weights / scale\<close>: the array is binary32, so the scalar is converted to binary32 and
  the quotients are rounded to binary32.
\<close>

definition np_truediv :: "32 word ndarray \<Rightarrow> scalar \<Rightarrow> fval ndarray" where
  "np_truediv a s =
     \<lparr>shape = shape a,
      elems = map (\<lambda>w. fdiv 23 8 (f32_val w) (round_to 23 8 (scalar_val s))) (elems a)\<rparr>"

definition np_add_int :: "fval ndarray \<Rightarrow> int \<Rightarrow> fval ndarray" where
  "np_add_int a z = \<lparr>shape = shape a, elems = map (\<lambda>x. fadd 23 8 x (Fin (of_int z))) (elems a)\<rparr>"

definition np_round :: "fval ndarray \<Rightarrow> fval ndarray" where
  "np_round a = \<lparr>shape = shape a, elems = map frint (elems a)\<rparr>"

definition np_clip :: "fval ndarray \<Rightarrow> int \<Rightarrow> int \<Rightarrow> fval ndarray" where
  "np_clip a lo hi =
     \<lparr>shape = shape a,
      elems = map (\<lambda>x. fminimum (fmaximum x (Fin (of_int lo))) (Fin (of_int hi))) (elems a)\<rparr>"

text \<open>
  \<^verbatim>\<open>astype(np.uint8)\<close> is C's conversion: the value is truncated and, on the usual
  platforms, reduced modulo 256; NaN and the infinities become 0.
\<close>

fun to_uint8 :: "fval \<Rightarrow> 8 word" where
  "to_uint8 (Fin a) = word_of_int (trunc a)"
| "to_uint8 x = 0"

definition astype_uint8 :: "fval ndarray \<Rightarrow> 8 word ndarray" where
  "astype_uint8 a = \<lparr>shape = shape a, elems = map to_uint8 (elems a)\<rparr>"

text \<open>
  \<^verbatim>\<open>astype(np.float16)\<close>: each value rounded to binary16. A zero keeps its sign bit; a
  NaN keeps its sign bit and the upper ten bits of its payload, the lowest bit being set
  when those are all zero.
\<close>

definition to_float16 :: "32 word \<Rightarrow> 16 word" where
  "to_float16 w =
     (let sign = push_bit 15 (ucast (drop_bit 31 w)) :: 16 word;
          sig = ucast (drop_bit 13 (w AND 0x7FFFFF)) :: 16 word
      in if f32_val w = Fin 0 then sign
         else if f32_val w = NaN then sign OR 0x7C00 OR (if sig = 0 then 1 else sig)
         else word_of_int (encode_float 10 5 (f32_val w)))"

definition astype_float16 :: "32 word ndarray \<Rightarrow> 16 word ndarray" where
  "astype_float16 a = \<lparr>shape = shape a, elems = map to_float16 (elems a)\<rparr>"

definition np_zeros :: "nat \<Rightarrow> 8 word ndarray" where
  "np_zeros n = \<lparr>shape = [n], elems = replicate n 0\<rparr>"

text \<open>
  \<^verbatim>\<open>a[i]\<close> with an integer: the \<open>i\<close>-th sub-array along the first axis, a negative \<open>i\<close>
  counting from the end; IndexError out of range and on an array without axes.
\<close>

definition getitem :: "'a ndarray \<Rightarrow> int \<Rightarrow> error + 'a ndarray" where
  "getitem a i =
     (case shape a of
        [] \<Rightarrow> Inl IndexError
      | n # sh \<Rightarrow>
          (let j = (if i < 0 then int n + i else i) in
           if j < 0 \<or> int n \<le> j then Inl IndexError
           else Inr \<lparr>shape = sh,
                     elems = take (prod_list sh) (drop (nat j * prod_list sh) (elems a))\<rparr>))"

text \<open>
  \<^verbatim>\<open>int(a)\<close> on the result of an index: only an array without axes, which holds one
  element, converts (NumPy 2.4; older versions also converted a one-element array with axes,
  with a deprecation warning).
\<close>

definition int_of_array :: "fval ndarray \<Rightarrow> error + int" where
  "int_of_array a =
     (case shape a of
        [] \<Rightarrow> (case elems a of [x] \<Rightarrow> py_int x | _ \<Rightarrow> Inl TypeError)
      | _ \<Rightarrow> Inl TypeError)"

text \<open>
  \<^verbatim>\<open>q[i] = v\<close> on a one-dimensional uint8 array. The values the converters store are
  between 0 and 255, so the stored byte is the value.
\<close>

definition setitem :: "8 word ndarray \<Rightarrow> int \<Rightarrow> int \<Rightarrow> error + 8 word ndarray" where
  "setitem q i v =
     (let n = int (length (elems q)); j = (if i < 0 then n + i else i) in
      if j < 0 \<or> n \<le> j then Inl IndexError
      else Inr (q\<lparr>elems := (elems q)[nat j := word_of_int v]\<rparr>))"

datatype qdata = Float32 "32 word ndarray" | Float16 "16 word ndarray" | UInt8 "8 word ndarray"

section \<open>The PyTorch converter: quantization\<close>

text \<open>
  \<^verbatim>\<open>PyTorchConverter._quantize_weights\<close>. The result \<open>None\<close> is the method falling off
  its end, for a bit width that is none of 32, 16, 8 and 4.
\<close>

definition quantize_weights ::
  "promotion \<Rightarrow> 32 word ndarray \<Rightarrow> int \<Rightarrow> error + (qdata \<times> scalar \<times> int) option" where
  "quantize_weights pr weights bits =
     (if bits = 32 then Inr (Some (Float32 weights, PyFloat (Fin 1), 0))
      else if bits = 16 then Inr (Some (Float16 (astype_float16 weights), PyFloat (Fin 1), 0))
      else
        bindE (np_max weights) (\<lambda>mx.
        bindE (np_min weights) (\<lambda>mn.
          let data_range0 = NpFloat32 (fsub 23 8 mx mn);
              data_range = (if scalar_val data_range0 = Fin 0 then PyFloat (Fin 1)
                            else data_range0)
          in
          if bits = 8 then
            (let zero_point = 0 in
             bindE (scalar_truediv pr data_range (Fin 255)) (\<lambda>scale.
               let quantized =
                     astype_uint8 (np_round (np_add_int (np_truediv weights scale) zero_point))
               in Inr (Some (UInt8 quantized, scale, zero_point))))
          else if bits = 4 then
            (let zero_point = 0 in
             bindE (scalar_truediv pr data_range (Fin 15)) (\<lambda>scale.
               let quantized_float =
                     np_clip (np_round (np_add_int (np_truediv weights scale) zero_point)) 0 15;
                   pack = (\<lambda>i quantized.
                     bindE (bindE (getitem quantized_float (int (i * 2))) int_of_array) (\<lambda>hi.
                     bindE (bindE (getitem quantized_float (int (i * 2 + 1))) int_of_array) (\<lambda>lo.
                       setitem quantized (int i) (push_bit 4 hi OR lo))))
               in
               if asize weights mod 2 = 0 then
                 bindE (for_range (asize weights div 2) pack (np_zeros (asize weights div 2)))
                   (\<lambda>quantized. Inr (Some (UInt8 quantized, scale, zero_point)))
               else
                 bindE (for_range (asize weights div 2) pack (np_zeros (asize weights div 2 + 1)))
                   (\<lambda>quantized.
                 bindE (if 1 < asize weights then
                          bindE (bindE (getitem quantized_float (- 1)) int_of_array) (\<lambda>v.
                            setitem quantized (- 1) (push_bit 4 v))
                        else Inr quantized)
                   (\<lambda>quantized. Inr (Some (UInt8 quantized, scale, zero_point))))))
          else Inr None)))"

text \<open>
  The weight tensor of the spec's scenario: the binary32 bit patterns of
  \<open>-1.0, -0.5, 0.0, 0.5, 1.0\<close>, as a one-dimensional array.
\<close>

definition scenario_weights :: "32 word ndarray" where
  "scenario_weights =
     \<lparr>shape = [5], elems = [0xBF800000, 0xBF000000, 0x00000000, 0x3F000000, 0x3F800000]\<rparr>"

text \<open>
  The range the quantizer computes first: \<^verbatim>\<open>np.max(weights) - np.min(weights)\<close>, a
  binary32 subtraction.
\<close>

definition data_range :: "32 word ndarray \<Rightarrow> error + fval" where
  "data_range weights =
     bindE (np_max weights) (\<lambda>mx. bindE (np_min weights) (\<lambda>mn. Inr (fsub 23 8 mx mn)))"

text \<open>A tensor with the single element \<open>1.0\<close>, and one with two elements \<open>1.0\<close>.\<close>

definition single_weight :: "32 word ndarray" where
  "single_weight = \<lparr>shape = [1], elems = [0x3F800000]\<rparr>"

definition constant_pair :: "32 word ndarray" where
  "constant_pair = \<lparr>shape = [2], elems = [0x3F800000, 0x3F800000]\<rparr>"

section \<open>Bytes\<close>

text \<open>
  \<^verbatim>\<open>ndarray.tobytes()\<close>: the elements in row-major order, each in the machine's byte
  order, taken to be little-endian. \<^verbatim>\<open>np.frombuffer\<close> with a binary32 element type reads
  them back.
\<close>

definition le_bytes32 :: "32 word \<Rightarrow> 8 word list" where
  "le_bytes32 w = [ucast w, ucast (drop_bit 8 w), ucast (drop_bit 16 w), ucast (drop_bit 24 w)]"

definition le_bytes16 :: "16 word \<Rightarrow> 8 word list" where
  "le_bytes16 w = [ucast w, ucast (drop_bit 8 w)]"

fun tobytes :: "qdata \<Rightarrow> 8 word list" where
  "tobytes (Float32 a) = concat (map le_bytes32 (elems a))"
| "tobytes (Float16 a) = concat (map le_bytes16 (elems a))"
| "tobytes (UInt8 a) = elems a"

definition of_le_bytes32 :: "8 word \<Rightarrow> 8 word \<Rightarrow> 8 word \<Rightarrow> 8 word \<Rightarrow> 32 word" where
  "of_le_bytes32 b0 b1 b2 b3 =
     ucast b0 OR push_bit 8 (ucast b1) OR push_bit 16 (ucast b2) OR push_bit 24 (ucast b3)"

fun frombuffer32 :: "8 word list \<Rightarrow> 32 word list" where
  "frombuffer32 (b0 # b1 # b2 # b3 # bs) = of_le_bytes32 b0 b1 b2 b3 # frombuffer32 bs"
| "frombuffer32 bs = []"

text \<open>A two-by-two weight matrix, every element \<open>1.0\<close>.\<close>

definition square_weights :: "32 word ndarray" where
  "square_weights =
     \<lparr>shape = [2, 2], elems = [0x3F800000, 0x3F800000, 0x3F800000, 0x3F800000]\<rparr>"

section \<open>The PyTorch converter: pruning and clustering\<close>

text \<open>
  \<^verbatim>\<open>weights * mask\<close> for one element: the element itself where the mask holds; otherwise the
  element times zero, a zero with the element's sign, a NaN staying a NaN and an infinity
  becoming the default NaN of the machine (\<open>0xFFC00000\<close> on x86).
\<close>

definition mul_mask :: "32 word \<Rightarrow> bool \<Rightarrow> 32 word" where
  "mul_mask w m =
     (if m then w
      else case f32_val w of
             Fin a \<Rightarrow> w AND 0x80000000
           | NaN \<Rightarrow> w
           | _ \<Rightarrow> 0xFFC00000)"

text \<open>
  \<^verbatim>\<open>PyTorchConverter._prune_weights\<close>. The threshold, a Python float, is compared in
  binary32. The sparsity is computed for the log only: its division is one of NumPy
  scalars, which gives NaN on a tensor without elements and raises nothing.
\<close>

definition prune_weights :: "32 word ndarray \<Rightarrow> fval \<Rightarrow> error + 32 word ndarray" where
  "prune_weights weights threshold =
     (let mask = map (\<lambda>w. fless (round_to 23 8 threshold) (fabs (f32_val w))) (elems weights);
          pruned_weights = \<lparr>shape = shape weights, elems = map2 mul_mask (elems weights) mask\<rparr>
      in Inr pruned_weights)"

text \<open>
  \<^verbatim>\<open>sklearn.cluster.KMeans(n_clusters=k, random_state=0).fit\<close> is a library outside the
  repository: the converters take it as a parameter, a function from the cluster count and
  the flattened values to the cluster centres and the label of every value, or an
  exception.
\<close>

type_synonym kmeans_fit = "int \<Rightarrow> 32 word list \<Rightarrow> error + (32 word list \<times> nat list)"

text \<open>\<^verbatim>\<open>centers[labels]\<close>: IndexError on a label that is no index of \<open>centers\<close>.\<close>

fun take_labels :: "'a list \<Rightarrow> nat list \<Rightarrow> error + 'a list" where
  "take_labels centers [] = Inr []"
| "take_labels centers (l # ls) =
     (if l < length centers
      then bindE (take_labels centers ls) (\<lambda>xs. Inr (centers ! l # xs))
      else Inl IndexError)"

text \<open>\<^verbatim>\<open>a.reshape(shape)\<close>: ValueError unless the shape has as many elements as \<open>a\<close>.\<close>

definition np_reshape :: "'a list \<Rightarrow> nat list \<Rightarrow> error + 'a ndarray" where
  "np_reshape xs sh =
     (if length xs = prod_list sh then Inr \<lparr>shape = sh, elems = xs\<rparr> else Inl ValueError)"

text \<open>
  \<^verbatim>\<open>PyTorchConverter._apply_weight_clustering\<close>. \<^verbatim>\<open>np.unique\<close> counts the distinct
  values.
\<close>

definition apply_weight_clustering ::
  "kmeans_fit \<Rightarrow> 32 word ndarray \<Rightarrow> int \<Rightarrow> error + 32 word ndarray" where
  "apply_weight_clustering kmeans weights num_clusters =
     (let original_shape = shape weights;
          flattened = elems weights
      in if int (length (remdups (map f32_val flattened))) \<le> num_clusters then Inr weights
         else bindE (kmeans num_clusters flattened) (\<lambda>(cluster_centers, labels).
              bindE (take_labels cluster_centers labels) (\<lambda>clustered.
                np_reshape clustered original_shape)))"

text \<open>A weight tensor with the three distinct values \<open>-1.0, -0.5, 1.0\<close>.\<close>

definition three_weights :: "32 word ndarray" where
  "three_weights = \<lparr>shape = [3], elems = [0xBF800000, 0xBF000000, 0x3F800000]\<rparr>"

text \<open>
  The answers of the clustering library on the inputs of the concrete runs below. For two
  clusters on \<open>three_weights\<close> the clusters are \<open>{-1.0, -0.5}\<close> and \<open>{1.0}\<close>, with the
  centres \<open>-0.75\<close> and \<open>1.0\<close> (whichever of the two the library numbers 0, the values it
  assigns are the same). A cluster count below 1 is refused with an exception.
\<close>

definition library_answers :: kmeans_fit where
  "library_answers k xs =
     (if k = 2 \<and> xs = [0xBF800000, 0xBF000000, 0x3F800000]
      then Inr ([0xBF400000, 0x3F800000], [0, 0, 1])
      else Inl ValueError)"

section \<open>The TensorFlow converter: pruning, clustering and quantization\<close>

text \<open>
  \<^verbatim>\<open>TensorFlowConverter._prune_weights\<close>, \<^verbatim>\<open>TensorFlowConverter._apply_weight_clustering\<close> and
  \<^verbatim>\<open>TensorFlowConverter._quantize_weights\<close>, translated from the TensorFlow converter's own source.
\<close>

definition tf_prune_weights :: "32 word ndarray \<Rightarrow> fval \<Rightarrow> error + 32 word ndarray" where
  "tf_prune_weights weights threshold =
     (let mask = map (\<lambda>w. fless (round_to 23 8 threshold) (fabs (f32_val w))) (elems weights);
          pruned_weights = \<lparr>shape = shape weights, elems = map2 mul_mask (elems weights) mask\<rparr>
      in Inr pruned_weights)"

definition tf_apply_weight_clustering ::
  "kmeans_fit \<Rightarrow> 32 word ndarray \<Rightarrow> int \<Rightarrow> error + 32 word ndarray" where
  "tf_apply_weight_clustering kmeans weights num_clusters =
     (let original_shape = shape weights;
          flattened = elems weights
      in if int (length (remdups (map f32_val flattened))) \<le> num_clusters then Inr weights
         else bindE (kmeans num_clusters flattened) (\<lambda>(cluster_centers, labels).
              bindE (take_labels cluster_centers labels) (\<lambda>clustered.
                np_reshape clustered original_shape)))"

definition tf_quantize_weights ::
  "promotion \<Rightarrow> 32 word ndarray \<Rightarrow> int \<Rightarrow> error + (qdata \<times> scalar \<times> int) option" where
  "tf_quantize_weights pr weights bits =
     (if bits = 32 then Inr (Some (Float32 weights, PyFloat (Fin 1), 0))
      else if bits = 16 then Inr (Some (Float16 (astype_float16 weights), PyFloat (Fin 1), 0))
      else
        bindE (np_max weights) (\<lambda>mx.
        bindE (np_min weights) (\<lambda>mn.
          let data_range0 = NpFloat32 (fsub 23 8 mx mn);
              data_range = (if scalar_val data_range0 = Fin 0 then PyFloat (Fin 1)
                            else data_range0)
          in
          if bits = 8 then
            (let zero_point = 0 in
             bindE (scalar_truediv pr data_range (Fin 255)) (\<lambda>scale.
               let quantized =
                     astype_uint8 (np_round (np_add_int (np_truediv weights scale) zero_point))
               in Inr (Some (UInt8 quantized, scale, zero_point))))
          else if bits = 4 then
            (let zero_point = 0 in
             bindE (scalar_truediv pr data_range (Fin 15)) (\<lambda>scale.
               let quantized_float =
                     np_clip (np_round (np_add_int (np_truediv weights scale) zero_point)) 0 15;
                   pack = (\<lambda>i quantized.
                     bindE (bindE (getitem quantized_float (int (i * 2))) int_of_array) (\<lambda>hi.
                     bindE (bindE (getitem quantized_float (int (i * 2 + 1))) int_of_array) (\<lambda>lo.
                       setitem quantized (int i) (push_bit 4 hi OR lo))))
               in
               if asize weights mod 2 = 0 then
                 bindE (for_range (asize weights div 2) pack (np_zeros (asize weights div 2)))
                   (\<lambda>quantized. Inr (Some (UInt8 quantized, scale, zero_point)))
               else
                 bindE (for_range (asize weights div 2) pack (np_zeros (asize weights div 2 + 1)))
                   (\<lambda>quantized.
                 bindE (if 1 < asize weights then
                          bindE (bindE (getitem quantized_float (- 1)) int_of_array) (\<lambda>v.
                            setitem quantized (- 1) (push_bit 4 v))
                        else Inr quantized)
                   (\<lambda>quantized. Inr (Some (UInt8 quantized, scale, zero_point))))))
          else Inr None)))"

section \<open>The ONNX converter: pruning, clustering and quantization\<close>

text \<open>
  \<^verbatim>\<open>ONNXConverter._prune_weights\<close>, \<^verbatim>\<open>ONNXConverter._apply_weight_clustering\<close> and
  \<^verbatim>\<open>ONNXConverter._quantize_weights\<close>, translated from the ONNX converter's own source.
\<close>

definition onnx_prune_weights :: "32 word ndarray \<Rightarrow> fval \<Rightarrow> error + 32 word ndarray" where
  "onnx_prune_weights weights threshold =
     (let mask = map (\<lambda>w. fless (round_to 23 8 threshold) (fabs (f32_val w))) (elems weights);
          pruned_weights = \<lparr>shape = shape weights, elems = map2 mul_mask (elems weights) mask\<rparr>
      in Inr pruned_weights)"

definition onnx_apply_weight_clustering ::
  "kmeans_fit \<Rightarrow> 32 word ndarray \<Rightarrow> int \<Rightarrow> error + 32 word ndarray" where
  "onnx_apply_weight_clustering kmeans weights num_clusters =
     (let original_shape = shape weights;
          flattened = elems weights
      in if int (length (remdups (map f32_val flattened))) \<le> num_clusters then Inr weights
         else bindE (kmeans num_clusters flattened) (\<lambda>(cluster_centers, labels).
              bindE (take_labels cluster_centers labels) (\<lambda>clustered.
                np_reshape clustered original_shape)))"

definition onnx_quantize_weights ::
  "promotion \<Rightarrow> 32 word ndarray \<Rightarrow> int \<Rightarrow> error + (qdata \<times> scalar \<times> int) option" where
  "onnx_quantize_weights pr weights bits =
     (if bits = 32 then Inr (Some (Float32 weights, PyFloat (Fin 1), 0))
      else if bits = 16 then Inr (Some (Float16 (astype_float16 weights), PyFloat (Fin 1), 0))
      else
        bindE (np_max weights) (\<lambda>mx.
        bindE (np_min weights) (\<lambda>mn.
          let data_range0 = NpFloat32 (fsub 23 8 mx mn);
              data_range = (if scalar_val data_range0 = Fin 0 then PyFloat (Fin 1)
                            else data_range0)
          in
          if bits = 8 then
            (let zero_point = 0 in
             bindE (scalar_truediv pr data_range (Fin 255)) (\<lambda>scale.
               let quantized =
                     astype_uint8 (np_round (np_add_int (np_truediv weights scale) zero_point))
               in Inr (Some (UInt8 quantized, scale, zero_point))))
          else if bits = 4 then
            (let zero_point = 0 in
             bindE (scalar_truediv pr data_range (Fin 15)) (\<lambda>scale.
               let quantized_float =
                     np_clip (np_round (np_add_int (np_truediv weights scale) zero_point)) 0 15;
                   pack = (\<lambda>i quantized.
                     bindE (bindE (getitem quantized_float (int (i * 2))) int_of_array) (\<lambda>hi.
                     bindE (bindE (getitem quantized_float (int (i * 2 + 1))) int_of_array) (\<lambda>lo.
                       setitem quantized (int i) (push_bit 4 hi OR lo))))
               in
               if asize weights mod 2 = 0 then
                 bindE (for_range (asize weights div 2) pack (np_zeros (asize weights div 2)))
                   (\<lambda>quantized. Inr (Some (UInt8 quantized, scale, zero_point)))
               else
                 bindE (for_range (asize weights div 2) pack (np_zeros (asize weights div 2 + 1)))
                   (\<lambda>quantized.
                 bindE (if 1 < asize weights then
                          bindE (bindE (getitem quantized_float (- 1)) int_of_array) (\<lambda>v.
                            setitem quantized (- 1) (push_bit 4 v))
                        else Inr quantized)
                   (\<lambda>quantized. Inr (Some (UInt8 quantized, scale, zero_point))))))
          else Inr None)))"

section \<open>The PyTorch converter: saving the model\<close>

text \<open>
  A processed weight: its data, its shape and, for a weight or bias, the scale, the zero
  point and the bit width. The weight store and the offset index are Python dictionaries,
  which iterate in insertion order: association lists with \<open>dict_set\<close> as assignment.
\<close>

record weight_info =
  data :: qdata
  qparams :: "(scalar \<times> int \<times> int) option"
  wshape :: "nat list"

type_synonym weight_store = "(string \<times> (string \<times> weight_info) list) list"

type_synonym offset_index = "(string \<times> (string \<times> nat) list) list"

fun dict_set :: "'k \<Rightarrow> 'v \<Rightarrow> ('k \<times> 'v) list \<Rightarrow> ('k \<times> 'v) list" where
  "dict_set k v [] = [(k, v)]"
| "dict_set k v ((k', v') # kvs) =
     (if k' = k then (k, v) # kvs else (k', v') # dict_set k v kvs)"

text \<open>
  \<^verbatim>\<open>struct.pack("i", n)\<close> and \<^verbatim>\<open>struct.pack("f", x)\<close>: four bytes in native order. An
  integer outside 32 bits raises; a float is converted to binary32 as C does, a finite value
  beyond the binary32 range becoming an infinity.
\<close>

definition pack_i :: "int \<Rightarrow> error + 8 word list" where
  "pack_i n =
     (if - (2 ^ 31) \<le> n \<and> n < 2 ^ 31 then Inr (le_bytes32 (word_of_int n))
      else Inl StructError)"

definition pack_f :: "fval \<Rightarrow> error + 8 word list" where
  "pack_f v =
     Inr (le_bytes32 (word_of_int (encode_float 23 8 v)))"

fun pack_ints :: "int list \<Rightarrow> error + 8 word list" where
  "pack_ints [] = Inr []"
| "pack_ints (n # ns) = bindE (pack_i n) (\<lambda>b. bindE (pack_ints ns) (\<lambda>bs. Inr (b @ bs)))"

text \<open>
  The body of the inner loop of \<^verbatim>\<open>_save_model\<close>: record the offset, then extend the
  buffer by the shape, by scale, zero point and bit width if the weight has them, and by
  the data.
\<close>

definition save_entry ::
  "string \<times> weight_info \<Rightarrow> 8 word list \<times> (string \<times> nat) list
     \<Rightarrow> error + (8 word list \<times> (string \<times> nat) list)" where
  "save_entry = (\<lambda>(weight_name, weight_info) (weight_data, layer_offsets).
     let layer_offsets = dict_set weight_name (length weight_data) layer_offsets in
     bindE (pack_ints (map int (wshape weight_info))) (\<lambda>shape_bytes.
     let weight_data = weight_data @ shape_bytes in
     bindE (case qparams weight_info of
              None \<Rightarrow> Inr weight_data
            | Some (scale, zero_point, bits) \<Rightarrow>
                bindE (pack_f (scalar_val scale)) (\<lambda>scale_bytes.
                bindE (pack_i zero_point) (\<lambda>zero_point_bytes.
                bindE (pack_i bits) (\<lambda>bits_bytes.
                  Inr (weight_data @ scale_bytes @ zero_point_bytes @ bits_bytes)))))
       (\<lambda>weight_data.
     let data_bytes = tobytes (data weight_info) in
     Inr (weight_data @ data_bytes, layer_offsets))))"

text \<open>The body of the outer loop, and the two loops from the empty buffer and index.\<close>

definition save_layer ::
  "string \<times> (string \<times> weight_info) list \<Rightarrow> 8 word list \<times> offset_index
     \<Rightarrow> error + (8 word list \<times> offset_index)" where
  "save_layer = (\<lambda>(layer_name, layer_weights) (weight_data, weight_offsets).
     bindE (for_loop layer_weights save_entry (weight_data, [])) (\<lambda>(weight_data, layer_offsets).
       Inr (weight_data, dict_set layer_name layer_offsets weight_offsets)))"

definition serialize_weights :: "weight_store \<Rightarrow> error + (8 word list \<times> offset_index)" where
  "serialize_weights weights = for_loop weights save_layer ([], [])"

text \<open>
  The model dictionary is its weights and everything else, which is opaque here. The file
  system maps a path to the file's content: a metadata document, which is everything but the
  weights together with the offset index, or a binary blob. Which paths can be written, and
  whether the output directory can be made, is given from outside.
\<close>

record 'm tinyai_model =
  meta :: 'm
  weights :: weight_store






text \<open>
  What the loop appends for one weight: the shape header, the quantization parameters if
  any, and the payload. \<open>entry_encoding\<close> is these bytes where packing succeeds, and
  \<open>layer_encoding\<close> those of all weights of one owner, in order.
\<close>

definition qparam_bytes :: "weight_info \<Rightarrow> error + 8 word list" where
  "qparam_bytes wi =
     (case qparams wi of
        None \<Rightarrow> Inr []
      | Some (scale, zero_point, bits) \<Rightarrow>
          bindE (pack_f (scalar_val scale)) (\<lambda>scale_bytes.
          bindE (pack_i zero_point) (\<lambda>zero_point_bytes.
          bindE (pack_i bits) (\<lambda>bits_bytes.
            Inr (scale_bytes @ zero_point_bytes @ bits_bytes)))))"

definition entry_bytes :: "weight_info \<Rightarrow> error + 8 word list" where
  "entry_bytes wi =
     bindE (pack_ints (map int (wshape wi))) (\<lambda>shape_bytes.
     bindE (qparam_bytes wi) (\<lambda>param_bytes.
       Inr (shape_bytes @ param_bytes @ tobytes (data wi))))"

definition entry_encoding :: "weight_info \<Rightarrow> 8 word list" where
  "entry_encoding wi = (case entry_bytes wi of Inr bs \<Rightarrow> bs | Inl e \<Rightarrow> [])"

definition layer_encoding :: "(string \<times> weight_info) list \<Rightarrow> 8 word list" where
  "layer_encoding lw = concat (map (\<lambda>(wn, wi). entry_encoding wi) lw)"

definition store_encoding :: "weight_store \<Rightarrow> 8 word list" where
  "store_encoding ws = concat (map (\<lambda>(owner, lw). layer_encoding lw) ws)"

text \<open>
  A weight store with one owner: the weight of the scenario, quantized at 4 bits, and a
  bias of one element.
\<close>

definition example_weight :: weight_info where
  "example_weight =
     \<lparr>data = UInt8 \<lparr>shape = [3], elems = [0x00, 0x04, 0x70]\<rparr>,
      qparams = Some (NpFloat32 (Fin (8947849 / 67108864)), 0, 4),
      wshape = [5]\<rparr>"

definition example_bias :: weight_info where
  "example_bias =
     \<lparr>data = UInt8 \<lparr>shape = [1], elems = [0x00]\<rparr>,
      qparams = Some (PyFloat (Fin (4803839602528529 / 72057594037927936)), 0, 4),
      wshape = [1]\<rparr>"

definition example_store :: weight_store where
  "example_store = [(''fc'', [(''weight'', example_weight), (''bias'', example_bias)])]"

definition example_blob :: "8 word list" where
  "example_blob =
     [0x05, 0x00, 0x00, 0x00,  0x89, 0x88, 0x08, 0x3E,  0x00, 0x00, 0x00, 0x00,
      0x04, 0x00, 0x00, 0x00,  0x00, 0x04, 0x70,
      0x01, 0x00, 0x00, 0x00,  0x89, 0x88, 0x88, 0x3D,  0x00, 0x00, 0x00, 0x00,
      0x04, 0x00, 0x00, 0x00,  0x00]"




section \<open>The PyTorch converter: configuration and weight processing\<close>







text \<open>
  What a run has done to the tensors is kept in a log, which an exception does not erase:
  a step of the run yields the events so far and a result or an exception. An event is a
  call of \<^verbatim>\<open>_prune_weights\<close>, \<^verbatim>\<open>_apply_weight_clustering\<close> or \<^verbatim>\<open>_quantize_weights\<close> that
  has returned (its result unpacked, for the last), with the name of the parameter; the
  log is not data of the converter and has no influence on the results.
\<close>

datatype event = Pruned string | Clustered string | Quantized string

fun bindR ::
  "event list \<times> (error + 'a) \<Rightarrow> ('a \<Rightarrow> event list \<times> (error + 'b))
     \<Rightarrow> event list \<times> (error + 'b)" where
  "bindR (evs, Inl e) f = (evs, Inl e)"
| "bindR (evs, Inr x) f = (case f x of (evs', r) \<Rightarrow> (evs @ evs', r))"













section \<open>Verified properties\<close>

subsection \<open>Evaluation of the floating-point operations\<close>

lemma f32_val_neg_one: "f32_val 0xBF800000 = Fin (- 1)"
  unfolding f32_val_def by simp code_simp

lemma f32_val_neg_half: "f32_val 0xBF000000 = Fin (- (1 / 2))"
  unfolding f32_val_def by simp code_simp

lemma f32_val_zero: "f32_val 0 = Fin 0"
  unfolding f32_val_def by simp code_simp

lemma f32_val_half: "f32_val 0x3F000000 = Fin (1 / 2)"
  unfolding f32_val_def by simp code_simp

lemma f32_val_one: "f32_val 0x3F800000 = Fin 1"
  unfolding f32_val_def by simp code_simp

lemmas f32_val_scenario =
  f32_val_neg_one f32_val_neg_half f32_val_zero f32_val_half f32_val_one

lemma fsub_scenario: "fsub 23 8 (Fin 1) (Fin (- 1)) = Fin 2"
  by code_simp

lemma round32_two_fifteenths: "round_to 23 8 (Fin (2 / 15)) = Fin (8947849 / 67108864)"
  by code_simp

lemma round64_two_fifteenths:
  "round_to 52 11 (Fin (2 / 15)) = Fin (4803839602528529 / 36028797018963968)"
  by code_simp

lemma round32_scale32:
  "round_to 23 8 (Fin (8947849 / 67108864)) = Fin (8947849 / 67108864)"
  by code_simp

lemma round32_scale64:
  "round_to 23 8 (Fin (4803839602528529 / 36028797018963968)) = Fin (8947849 / 67108864)"
  by code_simp

lemma scenario_quotients:
  "map (\<lambda>x. frint (fadd 23 8 (fdiv 23 8 x (Fin (8947849 / 67108864))) (Fin 0)))
     [Fin (- 1), Fin (- (1 / 2)), Fin 0, Fin (1 / 2), Fin 1]
   = [Fin (- 7), Fin (- 4), Fin 0, Fin 4, Fin 7]"
  by code_simp

subsection \<open>The scenario tensor at 4 bits\<close>

lemma np_max_scenario: "np_max scenario_weights = Inr (Fin 1)"
  by (simp add: np_max_def scenario_weights_def f32_val_scenario fmaximum_def)

lemma np_min_scenario: "np_min scenario_weights = Inr (Fin (- 1))"
  by (simp add: np_min_def scenario_weights_def f32_val_scenario fminimum_def)

lemma asize_scenario: "asize scenario_weights = 5"
  by (simp add: asize_def scenario_weights_def)

lemma levels_scenario:
  assumes "round_to 23 8 (scalar_val s) = Fin (8947849 / 67108864)"
  shows "np_clip (np_round (np_add_int (np_truediv scenario_weights s) 0)) 0 15
         = \<lparr>shape = [5], elems = [Fin 0, Fin 0, Fin 0, Fin 4, Fin 7]\<rparr>"
  using scenario_quotients assms
  by (simp add: np_clip_def np_round_def np_add_int_def np_truediv_def scenario_weights_def
      f32_val_scenario fminimum_def fmaximum_def)

lemma levels_scenario32:
  "np_clip (np_round (np_add_int
      (np_truediv scenario_weights (NpFloat32 (Fin (8947849 / 67108864)))) 0)) 0 15
   = \<lparr>shape = [5], elems = [Fin 0, Fin 0, Fin 0, Fin 4, Fin 7]\<rparr>"
  by (rule levels_scenario) (simp add: round32_scale32)

lemma levels_scenario64:
  "np_clip (np_round (np_add_int
      (np_truediv scenario_weights (NpFloat64 (Fin (4803839602528529 / 36028797018963968)))) 0)) 0 15
   = \<lparr>shape = [5], elems = [Fin 0, Fin 0, Fin 0, Fin 4, Fin 7]\<rparr>"
  by (rule levels_scenario) (simp add: round32_scale64)

lemma quantize_scenario32:
  "quantize_weights NEP50 scenario_weights 4
   = Inr (Some (UInt8 \<lparr>shape = [3], elems = [0x00, 0x04, 0x70]\<rparr>,
                NpFloat32 (Fin (8947849 / 67108864)), 0))"
  apply (simp add: quantize_weights_def np_max_scenario np_min_scenario fsub_scenario
      round32_two_fifteenths levels_scenario32 asize_scenario Let_def for_range_def upt_rec
      getitem_def int_of_array_def setitem_def np_zeros_def trunc_def)
  apply (simp add: numeral_3_eq_3)
  done

lemma quantize_scenario64:
  "quantize_weights Legacy scenario_weights 4
   = Inr (Some (UInt8 \<lparr>shape = [3], elems = [0x00, 0x04, 0x70]\<rparr>,
                NpFloat64 (Fin (4803839602528529 / 36028797018963968)), 0))"
  apply (simp add: quantize_weights_def np_max_scenario np_min_scenario fsub_scenario
      round64_two_fifteenths levels_scenario64 asize_scenario Let_def for_range_def upt_rec
      getitem_def int_of_array_def setitem_def np_zeros_def trunc_def)
  apply (simp add: numeral_3_eq_3)
  done

text \<open>
  Claim C1, as amended. For the weight tensor \<open>[-1.0, -0.5, 0.0, 0.5, 1.0]\<close> at 4 bits the
  data range is \<open>1.0 - (-1.0) = 2.0\<close> and the scale is \<open>2.0 / 15\<close> rounded to the scalar's
  format (binary32 under NEP 50, binary64 under the legacy promotion). The zero point is
  fixed at 0, so every value maps to \<open>round(v / scale)\<close> clamped to \<open>[0, 15]\<close> and the
  negative values clamp to 0: the levels are \<open>[0, 0, 0, 4, 7]\<close> and the three packed bytes are
  \<open>0x00, 0x04, 0x70\<close>. (The last level is 7 and not 8: the binary32 scale lies above
  \<open>2/15\<close>, so the quotient \<open>1.0 / scale\<close> rounds to the binary32 number just below 7.5.)
\<close>

theorem C1_scenario_quantized_at_4_bits:
  "np_max scenario_weights = Inr (Fin 1)
   \<and> np_min scenario_weights = Inr (Fin (- 1))
   \<and> fsub 23 8 (Fin 1) (Fin (- 1)) = Fin 2
   \<and> scalar_truediv NEP50 (NpFloat32 (Fin 2)) (Fin 15)
       = Inr (NpFloat32 (round_to 23 8 (Fin (2 / 15))))
   \<and> scalar_truediv Legacy (NpFloat32 (Fin 2)) (Fin 15)
       = Inr (NpFloat64 (round_to 52 11 (Fin (2 / 15))))
   \<and> elems (np_clip (np_round (np_add_int
         (np_truediv scenario_weights (NpFloat32 (round_to 23 8 (Fin (2 / 15))))) 0)) 0 15)
       = [Fin 0, Fin 0, Fin 0, Fin 4, Fin 7]
   \<and> elems (np_clip (np_round (np_add_int
         (np_truediv scenario_weights (NpFloat64 (round_to 52 11 (Fin (2 / 15))))) 0)) 0 15)
       = [Fin 0, Fin 0, Fin 0, Fin 4, Fin 7]
   \<and> quantize_weights NEP50 scenario_weights 4
       = Inr (Some (UInt8 \<lparr>shape = [3], elems = [0x00, 0x04, 0x70]\<rparr>,
                    NpFloat32 (round_to 23 8 (Fin (2 / 15))), 0))
   \<and> quantize_weights Legacy scenario_weights 4
       = Inr (Some (UInt8 \<lparr>shape = [3], elems = [0x00, 0x04, 0x70]\<rparr>,
                    NpFloat64 (round_to 52 11 (Fin (2 / 15))), 0))"
  by (simp add: np_max_scenario np_min_scenario fsub_scenario round32_two_fifteenths
      round64_two_fifteenths levels_scenario32 levels_scenario64 quantize_scenario32
      quantize_scenario64)

text \<open>
  Claim C1 as stated fails: the packed bytes of the scenario tensor are not
  \<open>0x04, 0x8B, 0xF0\<close>, and its levels are not \<open>[0, 4, 8, 11, 15]\<close>, under either promotion
  rule.
\<close>

theorem C1_counterexample:
  "map_sum id (map_option fst) (quantize_weights NEP50 scenario_weights 4)
     \<noteq> Inr (Some (UInt8 \<lparr>shape = [3], elems = [0x04, 0x8B, 0xF0]\<rparr>))
   \<and> map_sum id (map_option fst) (quantize_weights Legacy scenario_weights 4)
     \<noteq> Inr (Some (UInt8 \<lparr>shape = [3], elems = [0x04, 0x8B, 0xF0]\<rparr>))
   \<and> elems (np_clip (np_round (np_add_int
         (np_truediv scenario_weights (NpFloat32 (round_to 23 8 (Fin (2 / 15))))) 0)) 0 15)
       \<noteq> [Fin 0, Fin 4, Fin 8, Fin 11, Fin 15]
   \<and> elems (np_clip (np_round (np_add_int
         (np_truediv scenario_weights (NpFloat64 (round_to 52 11 (Fin (2 / 15))))) 0)) 0 15)
       \<noteq> [Fin 0, Fin 4, Fin 8, Fin 11, Fin 15]"
  by (simp add: round32_two_fifteenths round64_two_fifteenths levels_scenario32
      levels_scenario64 quantize_scenario32 quantize_scenario64)

subsection \<open>Bytes of a binary32 array\<close>

lemma of_le_bytes32_le_bytes32:
  "of_le_bytes32 (ucast w) (ucast (drop_bit 8 w)) (ucast (drop_bit 16 w))
     (ucast (drop_bit 24 w)) = (w :: 32 word)"
proof (rule bit_word_eqI)
  fix n :: nat
  assume "n < LENGTH(32)"
  then have n: "n < 32" by simp
  consider "n < 8" | "8 \<le> n" "n < 16" | "16 \<le> n" "n < 24" | "24 \<le> n"
    by linarith
  then show "bit (of_le_bytes32 (ucast w) (ucast (drop_bit 8 w)) (ucast (drop_bit 16 w))
        (ucast (drop_bit 24 w))) n = bit w n"
    using n by cases (auto simp add: of_le_bytes32_def bit_simps)
qed

lemma frombuffer32_le_bytes32: "frombuffer32 (concat (map le_bytes32 ws)) = ws"
  by (induction ws) (simp_all add: le_bytes32_def of_le_bytes32_le_bytes32)

lemma length_concat_le_bytes32: "length (concat (map le_bytes32 ws)) = 4 * length ws"
  by (induction ws) (simp_all add: le_bytes32_def)

lemma length_concat_le_bytes16: "length (concat (map le_bytes16 ws)) = 2 * length ws"
  by (induction ws) (simp_all add: le_bytes16_def)

text \<open>
  Claim C7. At 32 bits the quantizer hands the tensor back as it is, with scale 1.0 and zero
  point 0. The payload written for it is the four bytes of every binary32 bit pattern, in
  order, and reading the payload back as binary32 gives the same bit patterns.
\<close>

theorem C7_passthrough_at_32_bits:
  "quantize_weights pr t 32 = Inr (Some (Float32 t, PyFloat (Fin 1), 0))
   \<and> tobytes (Float32 t) = concat (map le_bytes32 (elems t))
   \<and> length (tobytes (Float32 t)) = 4 * length (elems t)
   \<and> frombuffer32 (tobytes (Float32 t)) = elems t"
  by (simp add: quantize_weights_def frombuffer32_le_bytes32 length_concat_le_bytes32)

subsection \<open>Exceptions of the quantizer, and a constant tensor\<close>

lemma bindE_eq_Inr: "bindE m f = Inr r \<longleftrightarrow> (\<exists>x. m = Inr x \<and> f x = Inr r)"
  by (cases m) simp_all

lemma bindE_eq_Inl: "bindE m f = Inl e \<longleftrightarrow> m = Inl e \<or> (\<exists>x. m = Inr x \<and> f x = Inl e)"
  by (cases m) simp_all

lemma for_loop_not_raises:
  assumes "\<And>i s. body i s \<noteq> Inl e"
  shows "for_loop xs body s \<noteq> Inl e"
proof (induction xs arbitrary: s)
  case Nil
  show ?case by simp
next
  case (Cons x xs)
  show ?case
    using assms [of x s] Cons.IH by (cases "body x s") simp_all
qed

lemma getitem_no_zde: "getitem a i \<noteq> Inl ZeroDivisionError"
  by (simp add: getitem_def Let_def split: list.splits)

lemma py_int_no_zde: "py_int x \<noteq> Inl ZeroDivisionError"
  by (cases x) simp_all

lemma int_of_array_no_zde: "int_of_array a \<noteq> Inl ZeroDivisionError"
  by (simp add: int_of_array_def py_int_no_zde split: list.splits)

lemma setitem_no_zde: "setitem q i v \<noteq> Inl ZeroDivisionError"
  by (simp add: setitem_def Let_def)

lemma np_max_no_zde: "np_max a \<noteq> Inl ZeroDivisionError"
  by (simp add: np_max_def split: list.splits)

lemma np_min_no_zde: "np_min a \<noteq> Inl ZeroDivisionError"
  by (simp add: np_min_def split: list.splits)

lemma item_no_zde: "bindE (getitem a i) int_of_array \<noteq> Inl ZeroDivisionError"
  by (simp add: bindE_eq_Inl getitem_no_zde int_of_array_no_zde)

lemma scalar_truediv_nonzero:
  "c \<noteq> Fin 0 \<Longrightarrow> scalar_truediv pr s c \<noteq> Inl ZeroDivisionError"
  by (cases s; cases pr) simp_all

lemma pack_loop_no_zde:
  "for_loop xs (\<lambda>i quantized.
      bindE (bindE (getitem qf (f i)) int_of_array) (\<lambda>hi.
      bindE (bindE (getitem qf (g i)) int_of_array) (\<lambda>lo.
        setitem quantized (h i) (k hi lo)))) s \<noteq> Inl ZeroDivisionError"
  by (rule for_loop_not_raises)
     (simp add: bindE_eq_Inl getitem_no_zde int_of_array_no_zde setitem_no_zde)

lemma quantize_weights_no_zde: "quantize_weights pr w bits \<noteq> Inl ZeroDivisionError"
  unfolding quantize_weights_def Let_def for_range_def
  by (simp add: bindE_eq_Inl np_max_no_zde np_min_no_zde scalar_truediv_nonzero
      pack_loop_no_zde getitem_no_zde int_of_array_no_zde setitem_no_zde)

lemma data_range_zeroD:
  assumes "data_range w = Inr (Fin 0)"
  obtains mx mn where "np_max w = Inr mx" "np_min w = Inr mn" "fsub 23 8 mx mn = Fin 0"
  using assms unfolding data_range_def by (auto simp add: bindE_eq_Inr)

lemma quantize8_zero_range:
  assumes "data_range w = Inr (Fin 0)"
  shows "quantize_weights pr w 8
         = Inr (Some (UInt8 (astype_uint8 (np_round (np_add_int
                  (np_truediv w (PyFloat (round_to 52 11 (Fin (1 / 255))))) 0))),
                PyFloat (round_to 52 11 (Fin (1 / 255))), 0))"
proof -
  obtain mx mn where "np_max w = Inr mx" "np_min w = Inr mn" "fsub 23 8 mx mn = Fin 0"
    using assms by (rule data_range_zeroD)
  then show ?thesis
    by (simp add: quantize_weights_def)
qed

lemma quantize4_zero_range:
  assumes "data_range w = Inr (Fin 0)" and "quantize_weights pr w 4 = Inr r"
  shows "\<exists>q. r = Some (q, PyFloat (round_to 52 11 (Fin (1 / 15))), 0)"
proof -
  obtain mx mn where "np_max w = Inr mx" "np_min w = Inr mn" "fsub 23 8 mx mn = Fin 0"
    using assms(1) by (rule data_range_zeroD)
  then show ?thesis
    using assms(2)
    by (auto simp add: quantize_weights_def Let_def bindE_eq_Inr split: if_splits)
qed


lemma round32_zero: "round_to 23 8 (Fin 0) = Fin 0"
  by code_simp

lemma round64_fifteenth:
  "round_to 52 11 (Fin (1 / 15)) = Fin (4803839602528529 / 72057594037927936)"
  by code_simp

lemma round64_255th:
  "round_to 52 11 (Fin (1 / 255)) = Fin (282578800148737 / 72057594037927936)"
  by code_simp

lemma round32_fifteenth64:
  "round_to 23 8 (Fin (4803839602528529 / 72057594037927936)) = Fin (8947849 / 134217728)"
  by code_simp

lemma level_of_one:
  "frint (fadd 23 8 (fdiv 23 8 (Fin 1) (Fin (8947849 / 134217728))) (Fin 0)) = Fin 15"
  by code_simp

lemma data_range_single: "data_range single_weight = Inr (Fin 0)"
  by (simp add: data_range_def np_max_def np_min_def single_weight_def f32_val_one fsub_def
      round32_zero)

lemma data_range_pair: "data_range constant_pair = Inr (Fin 0)"
  by (simp add: data_range_def np_max_def np_min_def constant_pair_def f32_val_one fsub_def
      round32_zero fmaximum_def fminimum_def)

lemma levels_single:
  "np_clip (np_round (np_add_int
      (np_truediv single_weight (PyFloat (Fin (4803839602528529 / 72057594037927936)))) 0)) 0 15
   = \<lparr>shape = [1], elems = [Fin 15]\<rparr>"
  using level_of_one
  by (simp add: np_clip_def np_round_def np_add_int_def np_truediv_def single_weight_def
      f32_val_one round32_fifteenth64 fminimum_def fmaximum_def)

lemma levels_pair:
  "np_clip (np_round (np_add_int
      (np_truediv constant_pair (PyFloat (Fin (4803839602528529 / 72057594037927936)))) 0)) 0 15
   = \<lparr>shape = [2], elems = [Fin 15, Fin 15]\<rparr>"
  using level_of_one
  by (simp add: np_clip_def np_round_def np_add_int_def np_truediv_def constant_pair_def
      f32_val_one round32_fifteenth64 fminimum_def fmaximum_def)

lemma quantize_single:
  "quantize_weights pr single_weight 4
   = Inr (Some (UInt8 \<lparr>shape = [1], elems = [0x00]\<rparr>,
                PyFloat (Fin (4803839602528529 / 72057594037927936)), 0))"
proof -
  obtain mx mn where "np_max single_weight = Inr mx" "np_min single_weight = Inr mn"
      "fsub 23 8 mx mn = Fin 0"
    using data_range_single by (rule data_range_zeroD)
  moreover have "asize single_weight = 1"
    by (simp add: asize_def single_weight_def)
  ultimately show ?thesis
    by (simp add: quantize_weights_def round64_fifteenth levels_single for_range_def np_zeros_def)
qed

lemma quantize_pair:
  "quantize_weights pr constant_pair 4
   = Inr (Some (UInt8 \<lparr>shape = [1], elems = [0xFF]\<rparr>,
                PyFloat (Fin (4803839602528529 / 72057594037927936)), 0))"
proof -
  obtain mx mn where "np_max constant_pair = Inr mx" "np_min constant_pair = Inr mn"
      "fsub 23 8 mx mn = Fin 0"
    using data_range_pair by (rule data_range_zeroD)
  moreover have "asize constant_pair = 2"
    by (simp add: asize_def constant_pair_def)
  ultimately show ?thesis
    by (simp add: quantize_weights_def round64_fifteenth levels_pair for_range_def np_zeros_def
        getitem_def int_of_array_def setitem_def trunc_def)
qed

lemma levels_square:
  "np_clip (np_round (np_add_int
      (np_truediv square_weights (PyFloat (Fin (4803839602528529 / 72057594037927936)))) 0)) 0 15
   = \<lparr>shape = [2, 2], elems = [Fin 15, Fin 15, Fin 15, Fin 15]\<rparr>"
  using level_of_one
  by (simp add: np_clip_def np_round_def np_add_int_def np_truediv_def square_weights_def
      f32_val_one round32_fifteenth64 fminimum_def fmaximum_def)

lemma data_range_square: "data_range square_weights = Inr (Fin 0)"
  by (simp add: data_range_def np_max_def np_min_def square_weights_def f32_val_one fsub_def
      round32_zero fmaximum_def fminimum_def)

text \<open>
  The packing loop indexes the array along its first axis only, so on a matrix
  \<^verbatim>\<open>int(quantized_float[0])\<close> is applied to a row and raises.
\<close>

lemma quantize_square_raises: "quantize_weights pr square_weights 4 = Inl TypeError"
proof -
  obtain mx mn where "np_max square_weights = Inr mx" "np_min square_weights = Inr mn"
      "fsub 23 8 mx mn = Fin 0"
    using data_range_square by (rule data_range_zeroD)
  moreover have "asize square_weights = 4"
    by (simp add: asize_def square_weights_def)
  ultimately show ?thesis
    by (simp add: quantize_weights_def round64_fifteenth levels_square for_range_def upt_rec
        np_zeros_def getitem_def int_of_array_def)
qed

text \<open>
  Claim C2, as amended. For every tensor whose data range is 0 (its maximum equals its
  minimum), quantization at 8 or 4 bits raises no division error: the code replaces the range
  by 1.0 before it divides. The returned scale is then the binary64 quotient \<open>1.0 / 255.0\<close>
  at 8 bits and \<open>1.0 / 15.0\<close> at 4 bits (not 1.0), and the zero point is 0. At 8 bits the
  quantizer always returns; at 4 bits it returns this scale whenever the packing loop
  returns.
\<close>

theorem C2_zero_range_scale:
  assumes "data_range w = Inr (Fin 0)"
  shows "quantize_weights pr w 8 \<noteq> Inl ZeroDivisionError
         \<and> quantize_weights pr w 4 \<noteq> Inl ZeroDivisionError
         \<and> (\<exists>q. quantize_weights pr w 8
                  = Inr (Some (q, PyFloat (round_to 52 11 (Fin (1 / 255))), 0)))
         \<and> (\<forall>r. quantize_weights pr w 4 = Inr r \<longrightarrow>
                  (\<exists>q. r = Some (q, PyFloat (round_to 52 11 (Fin (1 / 15))), 0)))"
  using quantize8_zero_range [OF assms, of pr] quantize4_zero_range [OF assms, of pr]
  by (simp add: quantize_weights_no_zde)

theorem C2_zero_range_scale_witness:
  "data_range constant_pair = Inr (Fin 0)
   \<and> quantize_weights NEP50 constant_pair 4
       = Inr (Some (UInt8 \<lparr>shape = [1], elems = [0xFF]\<rparr>,
                    PyFloat (round_to 52 11 (Fin (1 / 15))), 0))
   \<and> (\<exists>q. quantize_weights NEP50 constant_pair 8
            = Inr (Some (q, PyFloat (round_to 52 11 (Fin (1 / 255))), 0)))
   \<and> quantize_weights NEP50 constant_pair 8 \<noteq> Inl ZeroDivisionError
   \<and> quantize_weights NEP50 constant_pair 4 \<noteq> Inl ZeroDivisionError"
  using C2_zero_range_scale [OF data_range_pair, of NEP50] quantize_pair [of NEP50]
  by (simp add: data_range_pair round64_fifteenth)

text \<open>
  Claim C2 as stated fails: for the constant tensor \<open>[1.0]\<close> the returned scale is not 1.0,
  at 8 bits and at 4 bits.
\<close>

theorem C2_counterexample:
  "data_range single_weight = Inr (Fin 0)
   \<and> map_sum id (map_option (scalar_val \<circ> fst \<circ> snd)) (quantize_weights NEP50 single_weight 8)
       \<noteq> Inr (Some (Fin 1))
   \<and> map_sum id (map_option (scalar_val \<circ> fst \<circ> snd)) (quantize_weights NEP50 single_weight 4)
       \<noteq> Inr (Some (Fin 1))"
  using quantize8_zero_range [OF data_range_single, of NEP50] quantize_single [of NEP50]
  by (simp add: data_range_single round64_255th)

text \<open>
  Claim C3 at a tensor of one element. The element count 1 is odd, so the final byte should
  hold the quantized level of the last value, here 15, in its high nibble: \<open>0xF0\<close>. The
  code writes the last element only if the tensor has more than one, so the byte stays
  \<open>0x00\<close>.
\<close>

theorem C3_single_element_payload:
  "asize single_weight = 1
   \<and> elems (np_clip (np_round (np_add_int
        (np_truediv single_weight (PyFloat (round_to 52 11 (Fin (1 / 15))))) 0)) 0 15)
       = [Fin 15]
   \<and> quantize_weights pr single_weight 4
       = Inr (Some (UInt8 \<lparr>shape = [1], elems = [0x00]\<rparr>,
                    PyFloat (round_to 52 11 (Fin (1 / 15))), 0))"
proof -
  have "asize single_weight = 1"
    by (simp add: asize_def single_weight_def)
  then show ?thesis
    by (simp add: round64_fifteenth levels_single quantize_single)
qed

subsection \<open>Clustering\<close>

lemma take_labels_Inr:
  "take_labels cs ls = Inr xs \<Longrightarrow>
     length xs = length ls \<and> (\<forall>i < length ls. ls ! i < length cs \<and> xs ! i = cs ! (ls ! i))"
proof (induction ls arbitrary: xs)
  case Nil
  then show ?case by simp
next
  case (Cons l ls)
  from Cons.prems obtain ys where l: "l < length cs" and ys: "take_labels cs ls = Inr ys"
    and xs: "xs = cs ! l # ys"
    by (auto simp add: bindE_eq_Inr split: if_splits)
  from Cons.IH [OF ys] have
    "length ys = length ls" and "\<forall>i < length ls. ls ! i < length cs \<and> ys ! i = cs ! (ls ! i)"
    by simp_all
  then show ?case
    using l xs by (auto simp add: nth_Cons split: nat.splits)
qed

lemma distinct_count: "length (remdups (map f xs)) = card (f ` set xs)"
  by (simp add: length_remdups_card_conv)

lemma cluster_identity:
  "int (card (f32_val ` set (elems t))) \<le> k \<Longrightarrow> apply_weight_clustering km t k = Inr t"
  by (simp add: apply_weight_clustering_def distinct_count)

lemma cluster_replaces:
  assumes "\<not> int (card (f32_val ` set (elems t))) \<le> k"
    and "apply_weight_clustering km t k = Inr t'"
  shows "shape t' = shape t \<and>
         (\<exists>centers labels. km k (elems t) = Inr (centers, labels)
            \<and> length (elems t') = length labels
            \<and> (\<forall>i < length labels. labels ! i < length centers
                  \<and> elems t' ! i = centers ! (labels ! i)))"
proof -
  from assms obtain centers labels clustered where
    km: "km k (elems t) = Inr (centers, labels)"
    and tl: "take_labels centers labels = Inr clustered"
    and rs: "np_reshape clustered (shape t) = Inr t'"
    by (auto simp add: apply_weight_clustering_def distinct_count Let_def bindE_eq_Inr)
  from rs have t': "t' = \<lparr>shape = shape t, elems = clustered\<rparr>"
    by (auto simp add: np_reshape_def split: if_splits)
  from take_labels_Inr [OF tl] t' km show ?thesis
    by auto
qed

lemma take_labels_map:
  "(\<forall>l \<in> set ls. l < length cs) \<Longrightarrow> take_labels cs ls = Inr (map (\<lambda>l. cs ! l) ls)"
  by (induction ls) simp_all

lemma cluster_total:
  assumes "\<not> int (card (f32_val ` set (elems t))) \<le> k"
    and "km k (elems t) = Inr (centers, labels)"
    and "length labels = asize t"
    and "\<forall>l \<in> set labels. l < length centers"
  shows "apply_weight_clustering km t k
         = Inr \<lparr>shape = shape t, elems = map (\<lambda>l. centers ! l) labels\<rparr>"
  using assms
  by (simp add: apply_weight_clustering_def distinct_count take_labels_map np_reshape_def
      asize_def)

lemma cluster_raises:
  assumes "\<not> int (card (f32_val ` set (elems t))) \<le> k" and "km k (elems t) = Inl e"
  shows "apply_weight_clustering km t k = Inl e"
  using assms by (simp add: apply_weight_clustering_def distinct_count)

lemma card_three: "card (f32_val ` set (elems three_weights)) = 3"
  by (simp add: three_weights_def f32_val_scenario)

lemma card_pair: "card (f32_val ` set (elems constant_pair)) = 1"
  by (simp add: constant_pair_def f32_val_scenario)

lemma library_two: "library_answers 2 (elems three_weights)
   = Inr ([0xBF400000, 0x3F800000], [0, 0, 1])"
  by (simp add: library_answers_def three_weights_def)

lemma library_zero: "library_answers 0 xs = Inl ValueError"
  by (simp add: library_answers_def)

text \<open>
  Claim C8, as amended. If the tensor has at most \<open>k\<close> distinct values, clustering returns
  it unchanged. Otherwise the result is the clustering library's: when the library returns
  its centres and one label for each value, each label the index of a centre, clustering
  returns a tensor of the same shape in which every value is replaced by the centre it was
  assigned to; when the library raises, as it does for a cluster count below 1, the
  exception is raised and nothing is returned.
\<close>

theorem C8_cluster_identity_or_centroids:
  "(int (card (f32_val ` set (elems t))) \<le> k \<longrightarrow> apply_weight_clustering km t k = Inr t)
   \<and> (\<not> int (card (f32_val ` set (elems t))) \<le> k \<longrightarrow>
        (\<forall>centers labels.
            km k (elems t) = Inr (centers, labels) \<longrightarrow>
            length labels = asize t \<longrightarrow>
            (\<forall>l \<in> set labels. l < length centers) \<longrightarrow>
            apply_weight_clustering km t k
              = Inr \<lparr>shape = shape t, elems = map (\<lambda>l. centers ! l) labels\<rparr>)
        \<and> (\<forall>e. km k (elems t) = Inl e \<longrightarrow> apply_weight_clustering km t k = Inl e))"
  using cluster_identity [of t k km] cluster_total [of t k km] cluster_raises [of t k km]
  by blast

theorem C8_cluster_identity_or_centroids_witness:
  "int (card (f32_val ` set (elems constant_pair))) \<le> 1
   \<and> apply_weight_clustering library_answers constant_pair 1 = Inr constant_pair
   \<and> \<not> int (card (f32_val ` set (elems three_weights))) \<le> 2
   \<and> library_answers 2 (elems three_weights) = Inr ([0xBF400000, 0x3F800000], [0, 0, 1])
   \<and> length [0, 0, 1 :: nat] = asize three_weights
   \<and> list_all (\<lambda>l. l < length [0xBF400000, 0x3F800000 :: 32 word]) [0, 0, 1 :: nat]
   \<and> apply_weight_clustering library_answers three_weights 2
       = Inr \<lparr>shape = [3], elems = [0xBF400000, 0xBF400000, 0x3F800000]\<rparr>
   \<and> \<not> int (card (f32_val ` set (elems three_weights))) \<le> 0
   \<and> library_answers 0 (elems three_weights) = Inl ValueError
   \<and> apply_weight_clustering library_answers three_weights 0 = Inl ValueError"
proof -
  have sz: "asize three_weights = 3" and sh: "shape three_weights = [3]"
    by (simp_all add: asize_def three_weights_def)
  show ?thesis
    using C8_cluster_identity_or_centroids [of constant_pair 1 library_answers]
      C8_cluster_identity_or_centroids [of three_weights 2 library_answers]
      C8_cluster_identity_or_centroids [of three_weights 0 library_answers]
    by (simp add: card_pair card_three library_two library_zero sz sh)
qed

text \<open>
  Claim C8 as stated fails: \<open>three_weights\<close> has more than 0 distinct values, and with the
  cluster count 0 clustering returns no tensor at all, the library's exception being raised.
\<close>

theorem C8_counterexample:
  "\<not> int (card (f32_val ` set (elems three_weights))) \<le> 0
   \<and> apply_weight_clustering library_answers three_weights 0 = Inl ValueError"
  using cluster_raises [of three_weights 0 library_answers ValueError]
  by (simp add: card_three library_zero)

subsection \<open>The three converters\<close>

text \<open>
  Claim C9. The pruning, clustering and quantization functions of the TensorFlow and ONNX
  converters return, on every tensor and every parameter, what those of the PyTorch
  converter return.
\<close>

theorem C9_converters_agree:
  "tf_prune_weights w threshold = prune_weights w threshold
   \<and> onnx_prune_weights w threshold = prune_weights w threshold
   \<and> tf_apply_weight_clustering km w k = apply_weight_clustering km w k
   \<and> onnx_apply_weight_clustering km w k = apply_weight_clustering km w k
   \<and> tf_quantize_weights pr w bits = quantize_weights pr w bits
   \<and> onnx_quantize_weights pr w bits = quantize_weights pr w bits"
  unfolding tf_prune_weights_def onnx_prune_weights_def prune_weights_def
    tf_apply_weight_clustering_def onnx_apply_weight_clustering_def apply_weight_clustering_def
    tf_quantize_weights_def onnx_quantize_weights_def quantize_weights_def
  by (intro conjI refl)

subsection \<open>The serialization loops\<close>

lemma map_of_dict_set: "map_of (dict_set k v kvs) = (map_of kvs)(k \<mapsto> v)"
  by (induction kvs) (auto simp add: fun_eq_iff)

lemma save_entry_Inr:
  "save_entry (wn, wi) (wd, lo) = Inr (wd', lo') \<longleftrightarrow>
     (\<exists>bs. entry_bytes wi = Inr bs \<and> wd' = wd @ bs \<and> lo' = dict_set wn (length wd) lo)"
  by (cases "pack_ints (map int (wshape wi))"; cases "qparams wi")
     (auto simp add: save_entry_def entry_bytes_def qparam_bytes_def Let_def bindE_eq_Inr
       split: prod.splits)

lemma inner_loop:
  assumes "for_loop lw save_entry (wd, lo) = Inr (wd', lo')"
  shows "wd' = wd @ layer_encoding lw
         \<and> (\<forall>j < length lw. \<exists>bs. entry_bytes (snd (lw ! j)) = Inr bs)
         \<and> (\<forall>k. k \<notin> fst ` set lw \<longrightarrow> map_of lo' k = map_of lo k)
         \<and> (distinct (map fst lw) \<longrightarrow>
              (\<forall>j < length lw. map_of lo' (fst (lw ! j))
                  = Some (length wd + length (layer_encoding (take j lw)))))"
  using assms
proof (induction lw arbitrary: wd lo)
  case Nil
  then show ?case by (simp add: layer_encoding_def)
next
  case (Cons e lw)
  obtain wn wi where e: "e = (wn, wi)" by (cases e)
  from Cons.prems obtain wd1 lo1 where
    s1: "save_entry (wn, wi) (wd, lo) = Inr (wd1, lo1)"
    and rest: "for_loop lw save_entry (wd1, lo1) = Inr (wd', lo')"
    by (auto simp add: e bindE_eq_Inr)
  from s1 obtain bs where bs: "entry_bytes wi = Inr bs" and wd1: "wd1 = wd @ bs"
    and lo1: "lo1 = dict_set wn (length wd) lo"
    by (auto simp add: save_entry_Inr)
  have enc: "entry_encoding wi = bs"
    by (simp add: entry_encoding_def bs)
  note IH = Cons.IH [OF rest]
  have 1: "wd' = wd @ layer_encoding (e # lw)"
    using IH by (simp add: wd1 e layer_encoding_def enc)
  have 2: "\<forall>j < length (e # lw). \<exists>bs. entry_bytes (snd ((e # lw) ! j)) = Inr bs"
    using IH bs by (auto simp add: e nth_Cons split: nat.splits)
  have 3: "\<forall>k. k \<notin> fst ` set (e # lw) \<longrightarrow> map_of lo' k = map_of lo k"
    using IH by (auto simp add: e lo1 map_of_dict_set)
  have 4: "distinct (map fst (e # lw)) \<longrightarrow>
      (\<forall>j < length (e # lw). map_of lo' (fst ((e # lw) ! j))
          = Some (length wd + length (layer_encoding (take j (e # lw)))))"
  proof (intro impI allI)
    fix j
    assume d: "distinct (map fst (e # lw))" and j: "j < length (e # lw)"
    show "map_of lo' (fst ((e # lw) ! j))
          = Some (length wd + length (layer_encoding (take j (e # lw))))"
    proof (cases j)
      case 0
      have "wn \<notin> fst ` set lw" using d by (simp add: e)
      then have "map_of lo' wn = map_of lo1 wn" using IH by blast
      then show ?thesis
        by (simp add: 0 e lo1 map_of_dict_set layer_encoding_def)
    next
      case (Suc j')
      then have "j' < length lw" using j by simp
      moreover have "distinct (map fst lw)" using d by simp
      ultimately have "map_of lo' (fst (lw ! j'))
          = Some (length wd1 + length (layer_encoding (take j' lw)))"
        using IH by blast
      then show ?thesis
        by (simp add: Suc e wd1 layer_encoding_def enc)
    qed
  qed
  from 1 2 3 4 show ?case by blast
qed

lemma for_loop_append:
  "for_loop (xs @ ys) body s = bindE (for_loop xs body s) (for_loop ys body)"
proof (induction xs arbitrary: s)
  case Nil
  show ?case by simp
next
  case (Cons x xs)
  show ?case by (cases "body x s") (simp_all add: Cons.IH)
qed

lemma for_loop_take:
  assumes "for_loop xs body s = Inr t"
  shows "\<exists>u. for_loop (take n xs) body s = Inr u \<and> for_loop (drop n xs) body u = Inr t"
proof -
  have "for_loop (take n xs @ drop n xs) body s = Inr t"
    using assms by simp
  then show ?thesis
    unfolding for_loop_append by (simp add: bindE_eq_Inr)
qed

lemma save_layer_Inr:
  "save_layer (lname, lw) (wd, wo) = Inr (wd', wo') \<longleftrightarrow>
     (\<exists>lo. for_loop lw save_entry (wd, []) = Inr (wd', lo) \<and> wo' = dict_set lname lo wo)"
  by (auto simp add: save_layer_def bindE_eq_Inr)

lemma outer_loop:
  assumes "for_loop ws save_layer (wd, wo) = Inr (wd', wo')"
  shows "wd' = wd @ store_encoding ws
         \<and> (\<forall>k. k \<notin> fst ` set ws \<longrightarrow> map_of wo' k = map_of wo k)
         \<and> (distinct (map fst ws) \<longrightarrow>
              (\<forall>i < length ws. \<exists>lo wdi.
                  map_of wo' (fst (ws ! i)) = Some lo
                  \<and> for_loop (snd (ws ! i)) save_entry
                        (wd @ store_encoding (take i ws), []) = Inr (wdi, lo)))"
  using assms
proof (induction ws arbitrary: wd wo)
  case Nil
  then show ?case by (simp add: store_encoding_def)
next
  case (Cons l ws)
  obtain lname lw where l: "l = (lname, lw)" by (cases l)
  from Cons.prems obtain wd1 wo1 where
    s1: "save_layer (lname, lw) (wd, wo) = Inr (wd1, wo1)"
    and rest: "for_loop ws save_layer (wd1, wo1) = Inr (wd', wo')"
    by (auto simp add: l bindE_eq_Inr)
  from s1 obtain lo where inner: "for_loop lw save_entry (wd, []) = Inr (wd1, lo)"
    and wo1: "wo1 = dict_set lname lo wo"
    by (auto simp add: save_layer_Inr)
  have wd1: "wd1 = wd @ layer_encoding lw"
    using inner_loop [OF inner] by simp
  note IH = Cons.IH [OF rest]
  have 1: "wd' = wd @ store_encoding (l # ws)"
    using IH by (simp add: wd1 l store_encoding_def)
  have 2: "\<forall>k. k \<notin> fst ` set (l # ws) \<longrightarrow> map_of wo' k = map_of wo k"
    using IH by (auto simp add: l wo1 map_of_dict_set)
  have 3: "distinct (map fst (l # ws)) \<longrightarrow>
      (\<forall>i < length (l # ws). \<exists>lo wdi.
          map_of wo' (fst ((l # ws) ! i)) = Some lo
          \<and> for_loop (snd ((l # ws) ! i)) save_entry
                (wd @ store_encoding (take i (l # ws)), []) = Inr (wdi, lo))"
  proof (intro impI allI)
    fix i
    assume d: "distinct (map fst (l # ws))" and i: "i < length (l # ws)"
    show "\<exists>lo wdi. map_of wo' (fst ((l # ws) ! i)) = Some lo
          \<and> for_loop (snd ((l # ws) ! i)) save_entry
                (wd @ store_encoding (take i (l # ws)), []) = Inr (wdi, lo)"
    proof (cases i)
      case 0
      have "lname \<notin> fst ` set ws" using d by (simp add: l)
      then have "map_of wo' lname = map_of wo1 lname" using IH by blast
      then have "map_of wo' lname = Some lo"
        by (simp add: wo1 map_of_dict_set)
      then show ?thesis
        using inner by (auto simp add: 0 l store_encoding_def)
    next
      case (Suc i')
      then have "i' < length ws" using i by simp
      moreover have "distinct (map fst ws)" using d by simp
      ultimately obtain lo' wdi where "map_of wo' (fst (ws ! i')) = Some lo'"
        and "for_loop (snd (ws ! i')) save_entry (wd1 @ store_encoding (take i' ws), [])
             = Inr (wdi, lo')"
        using IH by blast
      then show ?thesis
        by (auto simp add: Suc l wd1 store_encoding_def)
    qed
  qed
  from 1 2 3 show ?case by blast
qed

lemma pack_i_length: "pack_i n = Inr bs \<Longrightarrow> length bs = 4"
  by (auto simp add: pack_i_def le_bytes32_def split: if_splits)

lemma pack_ints_length: "pack_ints ns = Inr bs \<Longrightarrow> length bs = 4 * length ns"
proof (induction ns arbitrary: bs)
  case Nil
  then show ?case by simp
next
  case (Cons n ns)
  then show ?case
    by (auto simp add: bindE_eq_Inr dest: pack_i_length)
qed

lemma entry_bytes_Inr:
  "entry_bytes wi = Inr bs \<longleftrightarrow>
     (\<exists>shape_bytes param_bytes. pack_ints (map int (wshape wi)) = Inr shape_bytes
        \<and> qparam_bytes wi = Inr param_bytes
        \<and> bs = shape_bytes @ param_bytes @ tobytes (data wi))"
  by (auto simp add: entry_bytes_def bindE_eq_Inr)

lemma layer_encoding_split:
  assumes "j < length lw" and "lw ! j = (role, wi)"
  shows "layer_encoding lw
         = layer_encoding (take j lw) @ entry_encoding wi @ layer_encoding (drop (Suc j) lw)"
proof -
  have "lw = take j lw @ (role, wi) # drop (Suc j) lw"
    using assms id_take_nth_drop [of j lw] by simp
  then have "layer_encoding lw = layer_encoding (take j lw @ (role, wi) # drop (Suc j) lw)"
    by simp
  then show ?thesis
    by (simp add: layer_encoding_def)
qed

lemma store_encoding_split:
  assumes "i < length ws" and "ws ! i = (lname, lw)"
  shows "store_encoding ws
         = store_encoding (take i ws) @ layer_encoding lw @ store_encoding (drop (Suc i) ws)"
proof -
  have "ws = take i ws @ (lname, lw) # drop (Suc i) ws"
    using assms id_take_nth_drop [of i ws] by simp
  then have "store_encoding ws = store_encoding (take i ws @ (lname, lw) # drop (Suc i) ws)"
    by simp
  then show ?thesis
    by (simp add: store_encoding_def)
qed

text \<open>
  Claim C6. Let the two loops of \<^verbatim>\<open>_save_model\<close> return the blob and the offset index for
  a weight store whose owners are distinct, and take the \<open>j\<close>-th weight of the \<open>i\<close>-th
  owner, the roles of that owner being distinct. The offset recorded for the pair of owner
  and role is the length of the buffer that the loops have built from everything before
  that weight. At this offset the blob holds the weight's shape header, four bytes for each
  dimension, then scale, zero point and bit width if the weight has them, then the payload.
\<close>

theorem C6_offset_is_blob_length_before_entry:
  assumes ser: "serialize_weights ws = Inr (blob, offsets)"
    and d: "distinct (map fst ws)"
    and i: "i < length ws" and wsi: "ws ! i = (lname, lw)"
    and dl: "distinct (map fst lw)"
    and j: "j < length lw" and lwj: "lw ! j = (role, wi)"
  shows "\<exists>lo shape_bytes param_bytes offs.
           map_of offsets lname = Some lo
         \<and> map_of lo role
             = Some (length (store_encoding (take i ws) @ layer_encoding (take j lw)))
         \<and> serialize_weights (take i ws @ [(lname, take j lw)])
             = Inr (store_encoding (take i ws) @ layer_encoding (take j lw), offs)
         \<and> pack_ints (map int (wshape wi)) = Inr shape_bytes
         \<and> length shape_bytes = 4 * length (wshape wi)
         \<and> qparam_bytes wi = Inr param_bytes
         \<and> blob = (store_encoding (take i ws) @ layer_encoding (take j lw))
                  @ (shape_bytes @ param_bytes @ tobytes (data wi))
                  @ (layer_encoding (drop (Suc j) lw) @ store_encoding (drop (Suc i) ws))"
proof -
  have loop: "for_loop ws save_layer ([], []) = Inr (blob, offsets)"
    using ser by (simp add: serialize_weights_def)
  note O = outer_loop [OF loop]
  have blob: "blob = store_encoding ws" using O by simp
  from O d i obtain lo wdi where
    lo: "map_of offsets (fst (ws ! i)) = Some lo"
    and inner: "for_loop (snd (ws ! i)) save_entry ([] @ store_encoding (take i ws), [])
                = Inr (wdi, lo)"
    by blast
  have inner': "for_loop lw save_entry (store_encoding (take i ws), []) = Inr (wdi, lo)"
    using inner by (simp add: wsi)
  note I = inner_loop [OF inner']
  from I dl j have off: "map_of lo (fst (lw ! j))
      = Some (length (store_encoding (take i ws)) + length (layer_encoding (take j lw)))"
    by blast
  from I j obtain bs where bs: "entry_bytes (snd (lw ! j)) = Inr bs"
    by blast
  then obtain shape_bytes param_bytes where
    sb: "pack_ints (map int (wshape wi)) = Inr shape_bytes"
    and pb: "qparam_bytes wi = Inr param_bytes"
    and bs_eq: "bs = shape_bytes @ param_bytes @ tobytes (data wi)"
    by (auto simp add: lwj entry_bytes_Inr)
  have enc: "entry_encoding wi = shape_bytes @ param_bytes @ tobytes (data wi)"
    using bs bs_eq by (simp add: entry_encoding_def lwj)
  have len: "length shape_bytes = 4 * length (wshape wi)"
    using pack_ints_length [OF sb] by simp
  have dec: "blob = (store_encoding (take i ws) @ layer_encoding (take j lw))
                  @ (shape_bytes @ param_bytes @ tobytes (data wi))
                  @ (layer_encoding (drop (Suc j) lw) @ store_encoding (drop (Suc i) ws))"
    by (simp add: blob store_encoding_split [OF i wsi] layer_encoding_split [OF j lwj] enc)
  \<comment> \<open>the loops run on what precedes the weight\<close>
  from for_loop_take [OF loop, of i] obtain u where
    pre: "for_loop (take i ws) save_layer ([], []) = Inr u"
    by blast
  obtain wdp wop where u: "u = (wdp, wop)" by (cases u)
  have wdp: "wdp = store_encoding (take i ws)"
    using outer_loop [OF pre [unfolded u]] by simp
  from for_loop_take [OF inner', of j] obtain v where
    prej: "for_loop (take j lw) save_entry (store_encoding (take i ws), []) = Inr v"
    by blast
  obtain wdv lov where v: "v = (wdv, lov)" by (cases v)
  have wdv: "wdv = store_encoding (take i ws) @ layer_encoding (take j lw)"
    using inner_loop [OF prej [unfolded v]] by simp
  have sl: "save_layer (lname, take j lw) (wdp, wop) = Inr (wdv, dict_set lname lov wop)"
    using prej by (simp add: save_layer_Inr wdp v)
  have run: "serialize_weights (take i ws @ [(lname, take j lw)])
      = Inr (store_encoding (take i ws) @ layer_encoding (take j lw), dict_set lname lov wop)"
    by (simp add: serialize_weights_def for_loop_append pre u sl wdv [symmetric])
  show ?thesis
    using lo off run sb len pb dec by (auto simp add: wsi lwj)
qed

subsection \<open>An example store\<close>

lemma encode32_scale_weight: "encode_float 23 8 (Fin (8947849 / 67108864)) = 1040746633"
  by code_simp

lemma encode32_scale_bias:
  "encode_float 23 8 (Fin (4803839602528529 / 72057594037927936)) = 1032358025"
  by code_simp

lemma bytes_examples:
  "le_bytes32 5 = [0x05, 0, 0, 0]" "le_bytes32 4 = [0x04, 0, 0, 0]"
  "le_bytes32 1 = [0x01, 0, 0, 0]" "le_bytes32 0 = [0, 0, 0, 0]"
  "le_bytes32 1040746633 = [0x89, 0x88, 0x08, 0x3E]"
  "le_bytes32 1032358025 = [0x89, 0x88, 0x88, 0x3D]"
  by (simp_all add: le_bytes32_def)

lemma entry_bytes_weight:
  "entry_bytes example_weight = Inr (take 19 example_blob)"
  by (simp add: entry_bytes_def qparam_bytes_def example_weight_def pack_i_def pack_f_def
      encode32_scale_weight bytes_examples example_blob_def)

lemma entry_bytes_bias:
  "entry_bytes example_bias = Inr (drop 19 example_blob)"
  by (simp add: entry_bytes_def qparam_bytes_def example_bias_def pack_i_def pack_f_def
      encode32_scale_bias bytes_examples example_blob_def)

lemma serialize_example:
  "serialize_weights example_store
   = Inr (example_blob, [(''fc'', [(''weight'', 0), (''bias'', 19)])])"
proof -
  have 1: "save_entry (''weight'', example_weight) ([], [])
           = Inr (take 19 example_blob, [(''weight'', 0)])"
    using entry_bytes_weight by (simp add: save_entry_Inr)
  have 2: "save_entry (''bias'', example_bias) (take 19 example_blob, [(''weight'', 0)])
           = Inr (example_blob, [(''weight'', 0), (''bias'', 19)])"
    using entry_bytes_bias by (simp add: save_entry_Inr) (simp add: example_blob_def)
  show ?thesis
    by (simp add: serialize_weights_def example_store_def save_layer_def 1 2)
qed


theorem C6_offset_is_blob_length_before_entry_witness:
  "serialize_weights example_store
     = Inr (example_blob, [(''fc'', [(''weight'', 0), (''bias'', 19)])])
   \<and> distinct (map fst example_store)
   \<and> 0 < length example_store
   \<and> example_store ! 0 = (''fc'', [(''weight'', example_weight), (''bias'', example_bias)])
   \<and> distinct (map fst [(''weight'', example_weight), (''bias'', example_bias)])
   \<and> 1 < length [(''weight'', example_weight), (''bias'', example_bias)]
   \<and> [(''weight'', example_weight), (''bias'', example_bias)] ! 1 = (''bias'', example_bias)
   \<and> (\<exists>lo shape_bytes param_bytes offs.
           map_of [(''fc'', [(''weight'', 0), (''bias'', 19)])] ''fc'' = Some lo
         \<and> map_of lo ''bias''
             = Some (length (store_encoding (take 0 example_store)
                  @ layer_encoding (take 1 [(''weight'', example_weight),
                                            (''bias'', example_bias)])))
         \<and> serialize_weights (take 0 example_store
               @ [(''fc'', take 1 [(''weight'', example_weight), (''bias'', example_bias)])])
             = Inr (store_encoding (take 0 example_store)
                  @ layer_encoding (take 1 [(''weight'', example_weight),
                                            (''bias'', example_bias)]), offs)
         \<and> pack_ints (map int (wshape example_bias)) = Inr shape_bytes
         \<and> length shape_bytes = 4 * length (wshape example_bias)
         \<and> qparam_bytes example_bias = Inr param_bytes
         \<and> example_blob
             = (store_encoding (take 0 example_store)
                  @ layer_encoding (take 1 [(''weight'', example_weight),
                                            (''bias'', example_bias)]))
               @ (shape_bytes @ param_bytes @ tobytes (data example_bias))
               @ (layer_encoding (drop (Suc 1) [(''weight'', example_weight),
                                               (''bias'', example_bias)])
                  @ store_encoding (drop (Suc 0) example_store)))
   \<and> length (store_encoding (take 0 example_store)
         @ layer_encoding (take 1 [(''weight'', example_weight), (''bias'', example_bias)]))
       = 19
   \<and> take 4 (drop 19 example_blob) = [0x01, 0x00, 0x00, 0x00]"
proof -
  let ?lw = "[(''weight'', example_weight), (''bias'', example_bias)]"
  have h: "distinct (map fst example_store)" "0 < length example_store"
    "example_store ! 0 = (''fc'', ?lw)" "distinct (map fst ?lw)" "1 < length ?lw"
    "?lw ! 1 = (''bias'', example_bias)"
    by (simp_all add: example_store_def)
  note c = C6_offset_is_blob_length_before_entry [OF serialize_example h]
  have len: "length (store_encoding (take 0 example_store) @ layer_encoding (take 1 ?lw)) = 19"
    by (simp add: store_encoding_def layer_encoding_def entry_encoding_def entry_bytes_weight
        example_blob_def)
  have hd: "take 4 (drop 19 example_blob) = [0x01, 0x00, 0x00, 0x00]"
    by (simp add: example_blob_def)
  show ?thesis
    by (intro conjI) (rule serialize_example h c len hd)+
qed

subsection \<open>Saving the model\<close>







subsection \<open>Weight processing\<close>


lemma bindR_Inr [simp]: "bindR ([], Inr x) f = f x"
  by (cases "f x") simp





















subsection \<open>Configurations outside the documented values\<close>























end
